theory Spec2Isabelle
  imports Main "HOL-Library.AList"
begin

section \<open>Collaborators of the document model\<close>

text \<open>
  \<^verbatim>\<open>model/document.ts\<close> imports \<^verbatim>\<open>DocumentKey\<close>, \<^verbatim>\<open>SnapshotVersion\<close>,
  \<^verbatim>\<open>ObjectValue\<close>, \<^verbatim>\<open>FieldValue\<close>, \<^verbatim>\<open>FieldPath\<close>, \<^verbatim>\<open>AnyJs\<close> and \<^verbatim>\<open>fail\<close>
  from modules that are not among the sources. Keys and versions are kept as type
  variables \<open>'k\<close> and \<open>'v\<close>, the document body as \<open>'o\<close>, field paths as \<open>'p\<close>, field
  values as \<open>'f\<close>; the operations that \<^verbatim>\<open>document.ts\<close> calls on them are either
  defined below from the words of the specification, or passed to the function that
  calls them as an argument.
\<close>

text \<open>
  Modelled from the spec: \<^verbatim>\<open>DocumentKey.isEqual\<close> (\<^verbatim>\<open>model/document_key.ts\<close> is
  missing). Section 3: "opaque, totally ordered identifier for a document (path).
  Equality and a deterministic comparator are required". A key is a value of any type
  \<open>'k\<close>, and \<^verbatim>\<open>isEqual\<close> is its equality.
\<close>

definition DocumentKey_isEqual :: "'k \<Rightarrow> 'k \<Rightarrow> bool" where
  "DocumentKey_isEqual k1 k2 = (k1 = k2)"

text \<open>
  Modelled from the spec: \<^verbatim>\<open>DocumentKey.comparator\<close> (\<^verbatim>\<open>model/document_key.ts\<close> is
  missing). Section 3, as above: the keys are totally ordered (sort \<open>linorder\<close>), and
  the comparator is the three-way comparison of that order: negative, zero or positive.
\<close>

definition DocumentKey_comparator :: "'k::linorder \<Rightarrow> 'k \<Rightarrow> int" where
  "DocumentKey_comparator k1 k2 = (if k1 < k2 then - 1 else if k2 < k1 then 1 else 0)"

text \<open>
  Modelled from the spec: \<^verbatim>\<open>SnapshotVersion.MIN\<close> (\<^verbatim>\<open>core/snapshot_version.ts\<close> is
  missing). Section 3: "opaque, totally ordered timestamp-like value with a
  distinguished minimum value MIN. Equality, compareTo, isEqual required". A version is
  a value of any linear order with a least element; \<^verbatim>\<open>MIN\<close> is that least element.
\<close>

definition SnapshotVersion_MIN :: "'v::order_bot" where
  "SnapshotVersion_MIN = bot"

text \<open>
  Modelled from the spec: \<^verbatim>\<open>SnapshotVersion.isEqual\<close> (same missing module), the
  equality of versions.
\<close>

definition SnapshotVersion_isEqual :: "'v \<Rightarrow> 'v \<Rightarrow> bool" where
  "SnapshotVersion_isEqual v1 v2 = (v1 = v2)"

text \<open>
  Modelled from the spec: \<^verbatim>\<open>SnapshotVersion.compareTo\<close> (same missing module), the
  three-way comparison of the total order of versions: negative, zero or positive.
\<close>

definition SnapshotVersion_compareTo :: "'v::linorder \<Rightarrow> 'v \<Rightarrow> int" where
  "SnapshotVersion_compareTo v1 v2 = (if v1 < v2 then - 1 else if v2 < v1 then 1 else 0)"

text \<open>
  Modelled from the spec: \<^verbatim>\<open>ObjectValue.isEqual\<close> (\<^verbatim>\<open>model/field_value.ts\<close> is
  missing). Section 4.1 describes document equality as "structural equality over key,
  both versions, data, and hasLocalMutations", so two bodies are equal when they are the
  same value.
\<close>

definition ObjectValue_isEqual :: "'o \<Rightarrow> 'o \<Rightarrow> bool" where
  "ObjectValue_isEqual o1 o2 = (o1 = o2)"

text \<open>
  Failures are values of a sum type, \<open>Inl\<close> the failure. \<open>AssertionFailure\<close> is the
  abort of \<^verbatim>\<open>fail\<close>; \<open>TypeError\<close> is what JavaScript raises when a property that is
  not a function is called; \<open>CallerError\<close> is the failure of a cache operation that
  section 4.2 of the specification calls a caller error.
\<close>

datatype error = AssertionFailure string | TypeError string | CallerError string

text \<open>
  Modelled from the spec: \<^verbatim>\<open>fail\<close> (\<^verbatim>\<open>util/assert.ts\<close> is missing). Section 7: an
  invariant violation "must abort the current operation irrecoverably (assertion-style
  failure), never silently return a sentinel". The abort is the error value that
  carries the message; no result is returned beside it.
\<close>

definition fail :: "string \<Rightarrow> error + 'a" where
  "fail msg = Inl (AssertionFailure msg)"

text \<open>
  \<^verbatim>\<open>AnyJs\<close> (\<^verbatim>\<open>util/misc.ts\<close> is missing) is the type of arbitrary JavaScript
  values. \<^verbatim>\<open>document.ts\<close> builds only one of them itself, \<^verbatim>\<open>undefined\<close>; every
  other one is a value of a type \<open>'j\<close>.
\<close>

datatype 'j AnyJs = JsUndefined | JsValue 'j

section \<open>The document model (model/document.ts)\<close>

text \<open>
  The abstract class \<^verbatim>\<open>MaybeDocument\<close> is a record; \<^verbatim>\<open>Document\<close> extends it with two
  fields; \<^verbatim>\<open>NoDocument\<close> extends it with none. A function over the record scheme
  \<open>MaybeDocument_scheme\<close> accepts every object that has the three base fields, as
  a JavaScript function that only reads \<^verbatim>\<open>key\<close>, \<^verbatim>\<open>remoteVersion\<close> and
  \<^verbatim>\<open>commitVersion\<close> does.
\<close>

record ('k, 'v) MaybeDocument =
  key :: 'k
  remoteVersion :: 'v
  commitVersion :: 'v

record ('k, 'v, 'o) Document = "('k, 'v) MaybeDocument" +
  data :: 'o
  hasLocalMutations :: bool

type_synonym ('k, 'v) NoDocument = "('k, 'v) MaybeDocument"

text \<open>
  The instances of the class hierarchy, tagged with their class, as
  \<^verbatim>\<open>instanceof\<close> sees them.
\<close>

datatype ('k, 'v, 'o) Instance =
  IsDocument "('k, 'v, 'o) Document"
| IsNoDocument "('k, 'v) NoDocument"

text \<open>
  What \<^verbatim>\<open>Document.isEqual\<close> can be handed at run time: \<^verbatim>\<open>null\<close>,
  \<^verbatim>\<open>undefined\<close>, an instance of the hierarchy, or any other value (\<open>Foreign\<close>, with
  a payload the code never looks at).
\<close>

datatype ('k, 'v, 'o, 'x) Other =
  Null
| Undefined
| Object "('k, 'v, 'o) Instance"
| Foreign 'x

fun instanceofDocument :: "('k, 'v, 'o, 'x) Other \<Rightarrow> bool" where
  "instanceofDocument (Object (IsDocument d)) = True"
| "instanceofDocument other = False"

text \<open>\<^verbatim>\<open>static compareByKey(d1, d2)\<close>, lines 40-42.\<close>

definition MaybeDocument_compareByKey ::
  "('k::linorder, 'v, 'm) MaybeDocument_scheme \<Rightarrow> ('k, 'v, 'n) MaybeDocument_scheme \<Rightarrow> int" where
  "MaybeDocument_compareByKey d1 d2 = DocumentKey_comparator (key d1) (key d2)"

text \<open>
  \<^verbatim>\<open>field(path)\<close>, lines 63-65. \<open>ObjectValue_field\<close> is \<^verbatim>\<open>ObjectValue.field\<close>, whose
  result is a field value or \<^verbatim>\<open>undefined\<close> (\<open>None\<close>).
\<close>

definition Document_field ::
  "('o \<Rightarrow> 'p \<Rightarrow> 'f option) \<Rightarrow> ('k, 'v, 'o) Document \<Rightarrow> 'p \<Rightarrow> 'f option" where
  "Document_field ObjectValue_field this path = ObjectValue_field (data this) path"

text \<open>
  \<^verbatim>\<open>fieldValue(path)\<close>, lines 67-70. \<open>FieldValue_value\<close> is \<^verbatim>\<open>FieldValue.value\<close>.
  A field value is an object, hence truthy, so the test \<^verbatim>\<open>field ? ... : ...\<close> asks
  whether the field was found.
\<close>

definition Document_fieldValue ::
  "('o \<Rightarrow> 'p \<Rightarrow> 'f option) \<Rightarrow> ('f \<Rightarrow> 'j AnyJs) \<Rightarrow> ('k, 'v, 'o) Document \<Rightarrow> 'p \<Rightarrow> 'j AnyJs" where
  "Document_fieldValue ObjectValue_field FieldValue_value this path =
     (case Document_field ObjectValue_field this path of
        Some field \<Rightarrow> FieldValue_value field
      | None \<Rightarrow> JsUndefined)"

text \<open>\<^verbatim>\<open>value()\<close>, lines 72-74. \<open>ObjectValue_value\<close> is \<^verbatim>\<open>ObjectValue.value\<close>.\<close>

definition Document_value :: "('o \<Rightarrow> 'j) \<Rightarrow> ('k, 'v, 'o) Document \<Rightarrow> 'j" where
  "Document_value ObjectValue_value this = ObjectValue_value (data this)"

text \<open>\<^verbatim>\<open>hasPendingWrites(baseSnapshotVersion)\<close>, lines 76-92.\<close>

definition Document_hasPendingWrites ::
  "('k, 'v::{linorder, order_bot}, 'o) Document \<Rightarrow> 'v \<Rightarrow> bool" where
  "Document_hasPendingWrites this baseSnapshotVersion =
     (if hasLocalMutations this then True
      else if \<not> SnapshotVersion_isEqual baseSnapshotVersion SnapshotVersion_MIN \<and>
              SnapshotVersion_compareTo (commitVersion this) baseSnapshotVersion \<ge> 0
      then SnapshotVersion_compareTo (commitVersion this) (remoteVersion this) > 0
      else False)"

text \<open>
  \<^verbatim>\<open>Document.isEqual(other)\<close>, lines 94-103. The conjunction starts with
  \<^verbatim>\<open>other instanceof Document\<close>; the fields of \<^verbatim>\<open>other\<close> are read only behind it.
\<close>

fun Document_isEqual :: "('k, 'v, 'o) Document \<Rightarrow> ('k, 'v, 'o, 'x) Other \<Rightarrow> bool" where
  "Document_isEqual this (Object (IsDocument other)) =
     (DocumentKey_isEqual (key this) (key other) \<and>
      SnapshotVersion_isEqual (remoteVersion this) (remoteVersion other) \<and>
      SnapshotVersion_isEqual (commitVersion this) (commitVersion other) \<and>
      ObjectValue_isEqual (data this) (data other) \<and>
      hasLocalMutations this = hasLocalMutations other)"
| "Document_isEqual this other = False"

text \<open>
  \<^verbatim>\<open>static compareByField(field, d1, d2)\<close>, lines 112-120. \<open>FieldValue_compareTo\<close> is
  \<^verbatim>\<open>FieldValue.compareTo\<close>.
\<close>

definition Document_compareByField ::
  "('o \<Rightarrow> 'p \<Rightarrow> 'f option) \<Rightarrow> ('f \<Rightarrow> 'f \<Rightarrow> int) \<Rightarrow> 'p \<Rightarrow>
   ('k, 'v, 'o) Document \<Rightarrow> ('k, 'v, 'o) Document \<Rightarrow> error + int" where
  "Document_compareByField ObjectValue_field FieldValue_compareTo field d1 d2 =
     (let v1 = Document_field ObjectValue_field d1 field;
          v2 = Document_field ObjectValue_field d2 field
      in case (v1, v2) of
           (Some f1, Some f2) \<Rightarrow> Inr (FieldValue_compareTo f1 f2)
         | _ \<Rightarrow> fail ''Trying to compare documents on fields that don't exist'')"

text \<open>
  \<^verbatim>\<open>NoDocument.isEqual(other)\<close>, lines 141-148. The body is
  \<^verbatim>\<open>other && ...\<close> over the three base fields of \<^verbatim>\<open>other\<close> and has no
  \<^verbatim>\<open>instanceof\<close> test, so it accepts every object that has these fields (a record
  scheme), whatever its class; \<open>None\<close> is \<^verbatim>\<open>null\<close> or \<^verbatim>\<open>undefined\<close>, which the
  guard \<^verbatim>\<open>other &&\<close> turns into a falsy result. The result is the truth value of what
  the JavaScript expression returns.
\<close>

definition NoDocument_isEqual ::
  "('k, 'v) NoDocument \<Rightarrow> ('k, 'v, 'm) MaybeDocument_scheme option \<Rightarrow> bool" where
  "NoDocument_isEqual this other =
     (case other of
        None \<Rightarrow> False
      | Some other' \<Rightarrow>
          SnapshotVersion_isEqual (remoteVersion other') (remoteVersion this) \<and>
          SnapshotVersion_isEqual (commitVersion other') (commitVersion this) \<and>
          DocumentKey_isEqual (key other') (key this))"

text \<open>
  A method call \<^verbatim>\<open>m.field(path)\<close> or \<^verbatim>\<open>m.value()\<close> on an instance of the
  hierarchy. \<^verbatim>\<open>Document\<close> declares both methods (lines 63-65 and 72-74).
  \<^verbatim>\<open>NoDocument\<close> (lines 128-149) declares \<^verbatim>\<open>toString\<close> and \<^verbatim>\<open>isEqual\<close> only, and
  its base class (lines 33-43) declares no instance method at all: on a \<^verbatim>\<open>NoDocument\<close>
  the property is \<^verbatim>\<open>undefined\<close>, and JavaScript raises a \<^verbatim>\<open>TypeError\<close> when it is
  called.
\<close>

definition call_field ::
  "('o \<Rightarrow> 'p \<Rightarrow> 'f option) \<Rightarrow> ('k, 'v, 'o) Instance \<Rightarrow> 'p \<Rightarrow> error + 'f option" where
  "call_field ObjectValue_field m path =
     (case m of
        IsDocument d \<Rightarrow> Inr (Document_field ObjectValue_field d path)
      | IsNoDocument n \<Rightarrow> Inl (TypeError ''field is not a function''))"

definition call_value :: "('o \<Rightarrow> 'j) \<Rightarrow> ('k, 'v, 'o) Instance \<Rightarrow> error + 'j" where
  "call_value ObjectValue_value m =
     (case m of
        IsDocument d \<Rightarrow> Inr (Document_value ObjectValue_value d)
      | IsNoDocument n \<Rightarrow> Inl (TypeError ''value is not a function''))"

section \<open>The query cache behind the test wrapper\<close>

text \<open>
  \<^verbatim>\<open>test_query_cache.ts\<close> wraps a \<^verbatim>\<open>QueryCache\<close> and a \<^verbatim>\<open>Persistence\<close>; neither
  implementation is among the sources. Both are modelled from section 4.2 (the contract
  table), section 3 (the data) and section 6 (\<^verbatim>\<open>runTransaction\<close>) of the
  specification. A query is a value of a type \<open>'q\<close> whose equality is the canonical
  identity of the query; \<open>'r\<close> is the opaque resume token; a target id is an integer.
\<close>

text \<open>
  Modelled from the spec: \<^verbatim>\<open>QueryData\<close> (\<^verbatim>\<open>local/query_data.ts\<close> is missing).
  Section 3: "the Query it serves, a TargetId, a listen-sequence number, and a resumable
  snapshot position (lastRemoteSnapshotVersion-style marker plus resume token)".
\<close>

record ('q, 'v, 'r) QueryData =
  query :: 'q
  targetId :: int
  sequenceNumber :: int
  snapshotVersion :: 'v
  resumeToken :: 'r

text \<open>
  Modelled from the spec: the state the \<^verbatim>\<open>QueryCache\<close> owns (section 3). The
  per-target records are stored under the canonical identity of their query ("Lookup
  key is the query's canonical identity, not the target id"); the target-key index maps
  a target id to its matched set, empty for a target that has none; the high-water mark
  of allocated target ids and the global target metadata complete it.
\<close>

record ('q, 'v, 'r, 'k) QueryCacheState =
  queries :: "('q \<times> ('q, 'v, 'r) QueryData) list"
  matchedKeys :: "int \<Rightarrow> 'k set"
  highestTargetId :: int
  highestListenSequenceNumber :: int
  lastRemoteSnapshotVersion :: 'v

text \<open>
  Modelled from the spec: the "currently-tracked" targets of section 4.2 are the
  target ids of the stored records, listed in the order of the records.
\<close>

definition trackedTargets :: "('q, 'v, 'r, 'k) QueryCacheState \<Rightarrow> int list" where
  "trackedTargets txn = map (\<lambda>(q, queryData). targetId queryData) (queries txn)"

text \<open>
  Modelled from the spec: \<^verbatim>\<open>Persistence.runTransaction\<close> (\<^verbatim>\<open>local/persistence.ts\<close>
  is missing). Section 6: \<^verbatim>\<open>runTransaction(label, isReadWrite, body) -> Result<T>\<close>,
  "label is diagnostic only"; section 7: a failure "propagates as a failed result to the
  caller". The body runs on the stored state; a successful body yields its result and the
  state it commits, a failed one yields the error and commits nothing. The
  specification gives the tag no effect on what a body may do, so neither does the
  model.
\<close>

definition runTransaction ::
  "string \<Rightarrow> bool \<Rightarrow> ('s \<Rightarrow> error + 'a \<times> 's) \<Rightarrow> 's \<Rightarrow> error + 'a \<times> 's" where
  "runTransaction label isReadWrite body s = body s"

text \<open>
  Modelled from the spec: \<^verbatim>\<open>QueryCache.addQueryData\<close>. "Inserts the record and
  initializes an empty matched-key set for its target. Fails if the target id already
  has a record (caller error)."
\<close>

definition QueryCache_addQueryData ::
  "('q, 'v, 'r, 'k) QueryCacheState \<Rightarrow> ('q, 'v, 'r) QueryData \<Rightarrow>
   error + unit \<times> ('q, 'v, 'r, 'k) QueryCacheState" where
  "QueryCache_addQueryData txn queryData =
     (if targetId queryData \<in> set (trackedTargets txn)
      then Inl (CallerError ''target id already has a record'')
      else Inr ((), txn\<lparr>queries := AList.update (query queryData) queryData (queries txn),
                       matchedKeys := (matchedKeys txn)(targetId queryData := {})\<rparr>))"

text \<open>
  Modelled from the spec: \<^verbatim>\<open>QueryCache.updateQueryData\<close>. "Replaces the stored record
  wholesale".
\<close>

definition QueryCache_updateQueryData ::
  "('q, 'v, 'r, 'k) QueryCacheState \<Rightarrow> ('q, 'v, 'r) QueryData \<Rightarrow>
   error + unit \<times> ('q, 'v, 'r, 'k) QueryCacheState" where
  "QueryCache_updateQueryData txn queryData =
     Inr ((), txn\<lparr>queries := AList.update (query queryData) queryData (queries txn)\<rparr>)"

text \<open>
  Modelled from the spec: \<^verbatim>\<open>QueryCache.getQueryCount\<close>. "Returns the number of
  currently-tracked targets."
\<close>

definition QueryCache_getQueryCount ::
  "('q, 'v, 'r, 'k) QueryCacheState \<Rightarrow> error + int \<times> ('q, 'v, 'r, 'k) QueryCacheState" where
  "QueryCache_getQueryCount txn = Inr (int (length (queries txn)), txn)"

text \<open>
  Modelled from the spec: \<^verbatim>\<open>QueryCache.removeQueryData\<close>. "Removes the per-target
  record. Does not implicitly clear the matched-key set".
\<close>

definition QueryCache_removeQueryData ::
  "('q, 'v, 'r, 'k) QueryCacheState \<Rightarrow> ('q, 'v, 'r) QueryData \<Rightarrow>
   error + unit \<times> ('q, 'v, 'r, 'k) QueryCacheState" where
  "QueryCache_removeQueryData txn queryData =
     Inr ((), txn\<lparr>queries := AList.delete (query queryData) (queries txn)\<rparr>)"

text \<open>
  Modelled from the spec: \<^verbatim>\<open>QueryCache.getQueryData\<close>. "Returns the stored QueryData
  for that exact query, or absent if not currently listened to."
\<close>

definition QueryCache_getQueryData ::
  "('q, 'v, 'r, 'k) QueryCacheState \<Rightarrow> 'q \<Rightarrow>
   error + ('q, 'v, 'r) QueryData option \<times> ('q, 'v, 'r, 'k) QueryCacheState" where
  "QueryCache_getQueryData txn q = Inr (map_of (queries txn) q, txn)"

text \<open>
  Modelled from the spec: \<^verbatim>\<open>QueryCache.getLastRemoteSnapshotVersion\<close>, the reader of
  the global target metadata of section 3.
\<close>

definition QueryCache_getLastRemoteSnapshotVersion ::
  "('q, 'v, 'r, 'k) QueryCacheState \<Rightarrow> error + 'v \<times> ('q, 'v, 'r, 'k) QueryCacheState" where
  "QueryCache_getLastRemoteSnapshotVersion txn = Inr (lastRemoteSnapshotVersion txn, txn)"

text \<open>
  Modelled from the spec: \<^verbatim>\<open>QueryCache.allocateTargetId\<close>. "Returns a fresh TargetId
  strictly greater than any previously allocated id (monotonic, no reuse even after
  removal) and persists the new high-water mark as part of the same transaction." The
  fresh id is the successor of the high-water mark.
\<close>

definition QueryCache_allocateTargetId ::
  "('q, 'v, 'r, 'k) QueryCacheState \<Rightarrow> error + int \<times> ('q, 'v, 'r, 'k) QueryCacheState" where
  "QueryCache_allocateTargetId txn =
     (let fresh = highestTargetId txn + 1
      in Inr (fresh, txn\<lparr>highestTargetId := fresh\<rparr>))"

text \<open>
  Modelled from the spec: \<^verbatim>\<open>QueryCache.addMatchingKeys\<close>. "Idempotently adds each key
  to the target's matched set (duplicate adds are no-ops)."
\<close>

definition QueryCache_addMatchingKeys ::
  "('q, 'v, 'r, 'k) QueryCacheState \<Rightarrow> 'k set \<Rightarrow> int \<Rightarrow>
   error + unit \<times> ('q, 'v, 'r, 'k) QueryCacheState" where
  "QueryCache_addMatchingKeys txn keys t =
     Inr ((), txn\<lparr>matchedKeys := (matchedKeys txn)(t := matchedKeys txn t \<union> keys)\<rparr>)"

text \<open>
  Modelled from the spec: \<^verbatim>\<open>QueryCache.removeMatchingKeys\<close>. "Idempotently removes
  each key from the target's matched set (removing an absent key is a no-op)."
\<close>

definition QueryCache_removeMatchingKeys ::
  "('q, 'v, 'r, 'k) QueryCacheState \<Rightarrow> 'k set \<Rightarrow> int \<Rightarrow>
   error + unit \<times> ('q, 'v, 'r, 'k) QueryCacheState" where
  "QueryCache_removeMatchingKeys txn keys t =
     Inr ((), txn\<lparr>matchedKeys := (matchedKeys txn)(t := matchedKeys txn t - keys)\<rparr>)"

text \<open>
  Modelled from the spec: \<^verbatim>\<open>QueryCache.getMatchingKeysForTargetId\<close>. "Returns the
  current matched-key set for that target (empty set, not absent, if the target has no
  matches or does not exist)."
\<close>

definition QueryCache_getMatchingKeysForTargetId ::
  "('q, 'v, 'r, 'k) QueryCacheState \<Rightarrow> int \<Rightarrow>
   error + 'k set \<times> ('q, 'v, 'r, 'k) QueryCacheState" where
  "QueryCache_getMatchingKeysForTargetId txn t = Inr (matchedKeys txn t, txn)"

text \<open>
  Modelled from the spec: \<^verbatim>\<open>QueryCache.removeMatchingKeysForTargetId\<close>. "Clears the
  entire matched-key set for that target in one step".
\<close>

definition QueryCache_removeMatchingKeysForTargetId ::
  "('q, 'v, 'r, 'k) QueryCacheState \<Rightarrow> int \<Rightarrow>
   error + unit \<times> ('q, 'v, 'r, 'k) QueryCacheState" where
  "QueryCache_removeMatchingKeysForTargetId txn t =
     Inr ((), txn\<lparr>matchedKeys := (matchedKeys txn)(t := {})\<rparr>)"

text \<open>
  Modelled from the spec: \<^verbatim>\<open>QueryCache.containsKey\<close>. "Returns true iff any
  currently-tracked target's matched set contains the key." The targets are searched in
  the order of their records.
\<close>

definition QueryCache_containsKey ::
  "('q, 'v, 'r, 'k) QueryCacheState \<Rightarrow> 'k \<Rightarrow>
   error + bool \<times> ('q, 'v, 'r, 'k) QueryCacheState" where
  "QueryCache_containsKey txn k =
     Inr (list_ex (\<lambda>t. k \<in> matchedKeys txn t) (trackedTargets txn), txn)"

text \<open>
  Modelled from the spec: \<^verbatim>\<open>QueryCache.setTargetsMetadata\<close>. "Persists the global
  watermark; lastRemoteSnapshotVersion is only overwritten when supplied."
\<close>

definition QueryCache_setTargetsMetadata ::
  "('q, 'v, 'r, 'k) QueryCacheState \<Rightarrow> int \<Rightarrow> 'v option \<Rightarrow>
   error + unit \<times> ('q, 'v, 'r, 'k) QueryCacheState" where
  "QueryCache_setTargetsMetadata txn n version =
     Inr ((), txn\<lparr>highestListenSequenceNumber := n,
                   lastRemoteSnapshotVersion :=
                     (case version of
                        None \<Rightarrow> lastRemoteSnapshotVersion txn
                      | Some v \<Rightarrow> v)\<rparr>)"

text \<open>
  Modelled from the spec: \<^verbatim>\<open>documentKeySet\<close> (\<^verbatim>\<open>model/collections.ts\<close> is missing),
  the empty set of document keys; its \<^verbatim>\<open>add\<close> is insertion, and its \<^verbatim>\<open>forEach\<close>
  visits the keys in key order (section 9, "ordered by key").
\<close>

definition documentKeySet :: "'k set" where
  "documentKeySet = {}"

subsection \<open>The wrapper (test/unit/local/test_query_cache.ts)\<close>

text \<open>
  Every method opens one transaction around one cache operation, with the label and
  the flag the source passes. The state argument stands for the persistence layer the
  wrapper holds.
\<close>

definition TestQueryCache_addQueryData ::
  "('q, 'v, 'r) QueryData \<Rightarrow> ('q, 'v, 'r, 'k) QueryCacheState \<Rightarrow>
   error + unit \<times> ('q, 'v, 'r, 'k) QueryCacheState" where
  "TestQueryCache_addQueryData queryData =
     runTransaction ''addQueryData'' False (\<lambda>txn. QueryCache_addQueryData txn queryData)"

definition TestQueryCache_updateQueryData ::
  "('q, 'v, 'r) QueryData \<Rightarrow> ('q, 'v, 'r, 'k) QueryCacheState \<Rightarrow>
   error + unit \<times> ('q, 'v, 'r, 'k) QueryCacheState" where
  "TestQueryCache_updateQueryData queryData =
     runTransaction ''updateQueryData'' True (\<lambda>txn. QueryCache_updateQueryData txn queryData)"

definition TestQueryCache_getQueryCount ::
  "('q, 'v, 'r, 'k) QueryCacheState \<Rightarrow> error + int \<times> ('q, 'v, 'r, 'k) QueryCacheState" where
  "TestQueryCache_getQueryCount =
     runTransaction ''getQueryCount'' False (\<lambda>txn. QueryCache_getQueryCount txn)"

definition TestQueryCache_removeQueryData ::
  "('q, 'v, 'r) QueryData \<Rightarrow> ('q, 'v, 'r, 'k) QueryCacheState \<Rightarrow>
   error + unit \<times> ('q, 'v, 'r, 'k) QueryCacheState" where
  "TestQueryCache_removeQueryData queryData =
     runTransaction ''addQueryData'' True (\<lambda>txn. QueryCache_removeQueryData txn queryData)"

definition TestQueryCache_getQueryData ::
  "'q \<Rightarrow> ('q, 'v, 'r, 'k) QueryCacheState \<Rightarrow>
   error + ('q, 'v, 'r) QueryData option \<times> ('q, 'v, 'r, 'k) QueryCacheState" where
  "TestQueryCache_getQueryData q =
     runTransaction ''getQueryData'' False (\<lambda>txn. QueryCache_getQueryData txn q)"

definition TestQueryCache_getLastRemoteSnapshotVersion ::
  "('q, 'v, 'r, 'k) QueryCacheState \<Rightarrow> error + 'v \<times> ('q, 'v, 'r, 'k) QueryCacheState" where
  "TestQueryCache_getLastRemoteSnapshotVersion =
     runTransaction ''getLastRemoteSnapshotVersion'' False
       (\<lambda>txn. QueryCache_getLastRemoteSnapshotVersion txn)"

definition TestQueryCache_allocateTargetId ::
  "('q, 'v, 'r, 'k) QueryCacheState \<Rightarrow> error + int \<times> ('q, 'v, 'r, 'k) QueryCacheState" where
  "TestQueryCache_allocateTargetId =
     runTransaction ''allocateTargetId'' False (\<lambda>txn. QueryCache_allocateTargetId txn)"

definition TestQueryCache_addMatchingKeys ::
  "'k list \<Rightarrow> int \<Rightarrow> ('q, 'v, 'r, 'k) QueryCacheState \<Rightarrow>
   error + unit \<times> ('q, 'v, 'r, 'k) QueryCacheState" where
  "TestQueryCache_addMatchingKeys keys t =
     runTransaction ''addMatchingKeys'' True
       (\<lambda>txn. let keySet = foldl (\<lambda>keySet k. insert k keySet) documentKeySet keys
              in QueryCache_addMatchingKeys txn keySet t)"

definition TestQueryCache_removeMatchingKeys ::
  "'k list \<Rightarrow> int \<Rightarrow> ('q, 'v, 'r, 'k) QueryCacheState \<Rightarrow>
   error + unit \<times> ('q, 'v, 'r, 'k) QueryCacheState" where
  "TestQueryCache_removeMatchingKeys keys t =
     runTransaction ''removeMatchingKeys'' True
       (\<lambda>txn. let keySet = foldl (\<lambda>keySet k. insert k keySet) documentKeySet keys
              in QueryCache_removeMatchingKeys txn keySet t)"

definition TestQueryCache_getMatchingKeysForTargetId ::
  "int \<Rightarrow> ('q, 'v, 'r, 'k::linorder) QueryCacheState \<Rightarrow>
   error + 'k list \<times> ('q, 'v, 'r, 'k) QueryCacheState" where
  "TestQueryCache_getMatchingKeysForTargetId t s =
     (case runTransaction ''getMatchingKeysForTargetId'' False
             (\<lambda>txn. QueryCache_getMatchingKeysForTargetId txn t) s of
        Inl e \<Rightarrow> Inl e
      | Inr (keySet, s') \<Rightarrow> Inr (sorted_list_of_set keySet, s'))"

definition TestQueryCache_removeMatchingKeysForTargetId ::
  "int \<Rightarrow> ('q, 'v, 'r, 'k) QueryCacheState \<Rightarrow>
   error + unit \<times> ('q, 'v, 'r, 'k) QueryCacheState" where
  "TestQueryCache_removeMatchingKeysForTargetId t =
     runTransaction ''removeMatchingKeysForTargetId'' True
       (\<lambda>txn. QueryCache_removeMatchingKeysForTargetId txn t)"

definition TestQueryCache_containsKey ::
  "'k \<Rightarrow> ('q, 'v, 'r, 'k) QueryCacheState \<Rightarrow>
   error + bool \<times> ('q, 'v, 'r, 'k) QueryCacheState" where
  "TestQueryCache_containsKey k =
     runTransaction ''containsKey'' False (\<lambda>txn. QueryCache_containsKey txn k)"

definition TestQueryCache_setTargetsMetadata ::
  "int \<Rightarrow> 'v option \<Rightarrow> ('q, 'v, 'r, 'k) QueryCacheState \<Rightarrow>
   error + unit \<times> ('q, 'v, 'r, 'k) QueryCacheState" where
  "TestQueryCache_setTargetsMetadata n version =
     runTransaction ''setTargetsMetadata'' True
       (\<lambda>txn. QueryCache_setTargetsMetadata txn n version)"

subsection \<open>Sequences of calls on the wrapper\<close>

text \<open>
  A caller of the wrapper issues its calls one after another, each on the state the
  previous one committed. \<open>committed\<close> is the stored state after a call: the state the
  transaction returned, or the old one when it failed. \<open>perform\<close> runs one call and
  reports the target id it allocated, if it is an allocation; \<open>allocatedIds\<close> collects
  these ids over a sequence of calls, in call order.
\<close>

datatype ('q, 'v, 'r, 'k) call =
  AddQueryData "('q, 'v, 'r) QueryData"
| UpdateQueryData "('q, 'v, 'r) QueryData"
| GetQueryCount
| RemoveQueryData "('q, 'v, 'r) QueryData"
| GetQueryData 'q
| GetLastRemoteSnapshotVersion
| AllocateTargetId
| AddMatchingKeys "'k list" int
| RemoveMatchingKeys "'k list" int
| GetMatchingKeysForTargetId int
| RemoveMatchingKeysForTargetId int
| ContainsKey 'k
| SetTargetsMetadata int "'v option"

definition committed :: "error + 'a \<times> 's \<Rightarrow> 's \<Rightarrow> 's" where
  "committed result s = (case result of Inl e \<Rightarrow> s | Inr (a, s') \<Rightarrow> s')"

fun perform ::
  "('q, 'v, 'r, 'k::linorder) call \<Rightarrow> ('q, 'v, 'r, 'k) QueryCacheState \<Rightarrow>
   int option \<times> ('q, 'v, 'r, 'k) QueryCacheState" where
  "perform (AddQueryData queryData) s =
     (None, committed (TestQueryCache_addQueryData queryData s) s)"
| "perform (UpdateQueryData queryData) s =
     (None, committed (TestQueryCache_updateQueryData queryData s) s)"
| "perform GetQueryCount s = (None, committed (TestQueryCache_getQueryCount s) s)"
| "perform (RemoveQueryData queryData) s =
     (None, committed (TestQueryCache_removeQueryData queryData s) s)"
| "perform (GetQueryData q) s = (None, committed (TestQueryCache_getQueryData q s) s)"
| "perform GetLastRemoteSnapshotVersion s =
     (None, committed (TestQueryCache_getLastRemoteSnapshotVersion s) s)"
| "perform AllocateTargetId s =
     (case TestQueryCache_allocateTargetId s of
        Inl e \<Rightarrow> (None, s)
      | Inr (t, s') \<Rightarrow> (Some t, s'))"
| "perform (AddMatchingKeys keys t) s =
     (None, committed (TestQueryCache_addMatchingKeys keys t s) s)"
| "perform (RemoveMatchingKeys keys t) s =
     (None, committed (TestQueryCache_removeMatchingKeys keys t s) s)"
| "perform (GetMatchingKeysForTargetId t) s =
     (None, committed (TestQueryCache_getMatchingKeysForTargetId t s) s)"
| "perform (RemoveMatchingKeysForTargetId t) s =
     (None, committed (TestQueryCache_removeMatchingKeysForTargetId t s) s)"
| "perform (ContainsKey k) s = (None, committed (TestQueryCache_containsKey k s) s)"
| "perform (SetTargetsMetadata n version) s =
     (None, committed (TestQueryCache_setTargetsMetadata n version s) s)"

fun allocatedIds ::
  "('q, 'v, 'r, 'k::linorder) call list \<Rightarrow> ('q, 'v, 'r, 'k) QueryCacheState \<Rightarrow> int list" where
  "allocatedIds [] s = []"
| "allocatedIds (c # cs) s =
     (case perform c s of
        (None, s') \<Rightarrow> allocatedIds cs s'
      | (Some t, s') \<Rightarrow> t # allocatedIds cs s')"

fun finalState ::
  "('q, 'v, 'r, 'k::linorder) call list \<Rightarrow> ('q, 'v, 'r, 'k) QueryCacheState \<Rightarrow>
   ('q, 'v, 'r, 'k) QueryCacheState" where
  "finalState [] s = s"
| "finalState (c # cs) s = finalState cs (snd (perform c s))"

section \<open>Concrete values\<close>

text \<open>
  Two documents and a \<^verbatim>\<open>NoDocument\<close> over natural numbers as keys and versions. The
  body of a document is an association list from field names to integers,
  \<^verbatim>\<open>ObjectValue.field\<close> is the lookup in it, \<^verbatim>\<open>ObjectValue.value\<close> returns the list,
  \<^verbatim>\<open>FieldValue.value\<close> returns the integer and \<^verbatim>\<open>FieldValue.compareTo\<close> compares two
  integers. \<open>example_NoDocument\<close> has the key and the versions of \<open>example_Document\<close>.
\<close>

definition example_Document :: "(nat, nat, (string \<times> int) list) Document" where
  "example_Document =
     \<lparr>key = 1, remoteVersion = 3, commitVersion = 5,
      data = [(''a'', 3), (''b'', 7)], hasLocalMutations = False\<rparr>"

definition example_Document2 :: "(nat, nat, (string \<times> int) list) Document" where
  "example_Document2 =
     \<lparr>key = 2, remoteVersion = 4, commitVersion = 4,
      data = [(''a'', 5)], hasLocalMutations = True\<rparr>"

definition example_NoDocument :: "(nat, nat) NoDocument" where
  "example_NoDocument = \<lparr>key = 1, remoteVersion = 3, commitVersion = 5\<rparr>"

definition example_field :: "(string \<times> int) list \<Rightarrow> string \<Rightarrow> int option" where
  "example_field body path = map_of body path"

definition example_body_value :: "(string \<times> int) list \<Rightarrow> (string \<times> int) list" where
  "example_body_value body = body"

definition example_field_value :: "int \<Rightarrow> int AnyJs" where
  "example_field_value f = JsValue f"

definition example_compareTo :: "int \<Rightarrow> int \<Rightarrow> int" where
  "example_compareTo f1 f2 = (if f1 < f2 then - 1 else if f2 < f1 then 1 else 0)"

text \<open>
  A cache state that tracks the targets 1 and 2, with the keys 10 and 11 matched by
  target 1 and the key 12 by target 2; a record for a third query, whose target id 3
  is not tracked there; and a sequence of calls that allocates three target ids, adding
  and removing a target in between.
\<close>

definition example_State :: "(string, nat, unit, nat) QueryCacheState" where
  "example_State =
     \<lparr>queries =
        [(''rooms'', \<lparr>query = ''rooms'', targetId = 1, sequenceNumber = 10,
                      snapshotVersion = 3, resumeToken = ()\<rparr>),
         (''users'', \<lparr>query = ''users'', targetId = 2, sequenceNumber = 11,
                      snapshotVersion = 3, resumeToken = ()\<rparr>)],
      matchedKeys = (\<lambda>t. {})(1 := {10, 11}, 2 := {12}),
      highestTargetId = 2,
      highestListenSequenceNumber = 11,
      lastRemoteSnapshotVersion = 3\<rparr>"

definition example_QueryData :: "(string, nat, unit) QueryData" where
  "example_QueryData =
     \<lparr>query = ''tasks'', targetId = 3, sequenceNumber = 12,
      snapshotVersion = 4, resumeToken = ()\<rparr>"

definition example_calls :: "(string, nat, unit, nat) call list" where
  "example_calls =
     [AllocateTargetId, AddQueryData example_QueryData, AddMatchingKeys [13, 14] 3,
      RemoveQueryData example_QueryData, RemoveMatchingKeysForTargetId 3,
      AllocateTargetId, AddQueryData example_QueryData, AllocateTargetId]"

section \<open>Pending writes\<close>

lemma SnapshotVersion_compareTo_nonneg:
  "(SnapshotVersion_compareTo a b \<ge> 0) = (b \<le> a)"
  by (auto simp: SnapshotVersion_compareTo_def)

lemma SnapshotVersion_compareTo_pos:
  "(SnapshotVersion_compareTo a b > 0) = (b < a)"
  by (auto simp: SnapshotVersion_compareTo_def)

text \<open>
  C1. For every document \<open>d\<close> and every version \<open>v\<close>, \<open>hasPendingWrites\<close> is decided in
  this order: a document with local mutations is pending; otherwise, when \<open>v\<close> is not
  \<open>MIN\<close> and the commit version is at least \<open>v\<close>, it is pending exactly when the commit
  version is strictly above the remote version; otherwise it is not pending.
\<close>

theorem hasPendingWrites_decision:
  "Document_hasPendingWrites d v =
     (if hasLocalMutations d then True
      else if v \<noteq> SnapshotVersion_MIN \<and> v \<le> commitVersion d
      then remoteVersion d < commitVersion d
      else False)"
  by (simp add: Document_hasPendingWrites_def SnapshotVersion_isEqual_def
      SnapshotVersion_compareTo_nonneg SnapshotVersion_compareTo_pos)

text \<open>
  The document committed at 5 and acknowledged at 3 is pending against the baseline 4,
  not against the baseline 6 and not against \<open>MIN\<close>; a document with local mutations is
  pending against every baseline.
\<close>

theorem hasPendingWrites_decision_witness:
  "Document_hasPendingWrites example_Document 4 = True \<and>
   Document_hasPendingWrites example_Document 6 = False \<and>
   Document_hasPendingWrites example_Document SnapshotVersion_MIN = False \<and>
   Document_hasPendingWrites example_Document2 6 = True"
  by (simp add: hasPendingWrites_decision SnapshotVersion_MIN_def bot_nat_def
      example_Document_def example_Document2_def)

section \<open>Equality of documents\<close>

lemma Document_isEqual_refl: "Document_isEqual d (Object (IsDocument d))"
  by (simp add: DocumentKey_isEqual_def SnapshotVersion_isEqual_def ObjectValue_isEqual_def)

lemma Document_isEqual_sym:
  "Document_isEqual d1 (Object (IsDocument d2)) = Document_isEqual d2 (Object (IsDocument d1))"
  by (auto simp: DocumentKey_isEqual_def SnapshotVersion_isEqual_def ObjectValue_isEqual_def)

lemma NoDocument_isEqual_refl: "NoDocument_isEqual n (Some n)"
  by (simp add: NoDocument_isEqual_def DocumentKey_isEqual_def SnapshotVersion_isEqual_def)

lemma NoDocument_isEqual_sym:
  "NoDocument_isEqual n1 (Some n2) = NoDocument_isEqual n2 (Some n1)"
  by (auto simp: NoDocument_isEqual_def DocumentKey_isEqual_def SnapshotVersion_isEqual_def)

lemma Document_isEqual_NoDocument: "Document_isEqual d (Object (IsNoDocument n)) = False"
  by simp

text \<open>
  \<^verbatim>\<open>NoDocument.isEqual\<close> compares the key and the two versions of its argument and
  nothing else: it does not ask for the class of the argument.
\<close>

lemma NoDocument_isEqual_ignores_class:
  "NoDocument_isEqual n (Some d) =
     (remoteVersion d = remoteVersion n \<and> commitVersion d = commitVersion n \<and> key d = key n)"
  by (simp add: NoDocument_isEqual_def DocumentKey_isEqual_def SnapshotVersion_isEqual_def)

text \<open>
  C2. \<open>isEqual\<close> is reflexive and symmetric on each variant
  (\<open>Document_isEqual_refl\<close>, \<open>Document_isEqual_sym\<close>, \<open>NoDocument_isEqual_refl\<close>,
  \<open>NoDocument_isEqual_sym\<close>), and a \<^verbatim>\<open>Document\<close> is never equal to a \<^verbatim>\<open>NoDocument\<close>
  (\<open>Document_isEqual_NoDocument\<close>). The other direction of variant sensitivity fails:
  asked about a \<^verbatim>\<open>Document\<close> with its own key and versions, a \<^verbatim>\<open>NoDocument\<close>
  answers true, while that \<^verbatim>\<open>Document\<close> asked about the \<^verbatim>\<open>NoDocument\<close> answers false.
\<close>

theorem NoDocument_isEqual_accepts_Document:
  "NoDocument_isEqual example_NoDocument (Some example_Document) = True \<and>
   Document_isEqual example_Document
     (Object (IsNoDocument example_NoDocument) :: (nat, nat, (string \<times> int) list, unit) Other)
     = False"
  by (simp add: NoDocument_isEqual_def DocumentKey_isEqual_def SnapshotVersion_isEqual_def
      example_NoDocument_def example_Document_def)

text \<open>
  C9. For every document \<open>d\<close>, \<open>d.isEqual(other)\<close> is false when \<open>other\<close> is
  \<^verbatim>\<open>null\<close>, \<^verbatim>\<open>undefined\<close>, a \<^verbatim>\<open>NoDocument\<close> or any other value that is not an
  instance of \<^verbatim>\<open>Document\<close>. The result is a truth value for every argument: no
  argument makes the comparison fail.
\<close>

theorem Document_isEqual_false_on_non_Document:
  "Document_isEqual d Null = False \<and>
   Document_isEqual d Undefined = False \<and>
   Document_isEqual d (Object (IsNoDocument n)) = False \<and>
   Document_isEqual d (Foreign x) = False \<and>
   (\<not> instanceofDocument other \<longrightarrow> Document_isEqual d other = False)"
  by (cases other rule: instanceofDocument.cases) simp_all

theorem Document_isEqual_false_on_non_Document_witness:
  "\<not> instanceofDocument
       (Foreign ''text'' :: (nat, nat, (string \<times> int) list, string) Other) \<and>
   Document_isEqual example_Document
     (Foreign ''text'' :: (nat, nat, (string \<times> int) list, string) Other) = False \<and>
   Document_isEqual example_Document
     (Null :: (nat, nat, (string \<times> int) list, string) Other) = False \<and>
   Document_isEqual example_Document
     (Undefined :: (nat, nat, (string \<times> int) list, string) Other) = False \<and>
   Document_isEqual example_Document
     (Object (IsNoDocument example_NoDocument) ::
        (nat, nat, (string \<times> int) list, string) Other) = False"
  using Document_isEqual_false_on_non_Document
    [of example_Document example_NoDocument "''text''"
        "Foreign ''text'' :: (nat, nat, (string \<times> int) list, string) Other"]
  by simp

section \<open>Fields of a document\<close>

text \<open>
  C3. \<open>compareByField\<close> fails with the assertion failure exactly when one of the two
  documents has no value at the path. When both have one, the result is the comparison
  of the two values; when one is missing, the result is the failure and never a number.
\<close>

theorem compareByField_fails_iff_field_missing:
  "(isl (Document_compareByField fld cmp p d1 d2) =
      (Document_field fld d1 p = None \<or> Document_field fld d2 p = None)) \<and>
   (\<forall>f1 f2. Document_field fld d1 p = Some f1 \<and> Document_field fld d2 p = Some f2 \<longrightarrow>
      Document_compareByField fld cmp p d1 d2 = Inr (cmp f1 f2)) \<and>
   (Document_field fld d1 p = None \<or> Document_field fld d2 p = None \<longrightarrow>
      Document_compareByField fld cmp p d1 d2 =
        Inl (AssertionFailure ''Trying to compare documents on fields that don't exist''))"
  by (auto simp: Document_compareByField_def fail_def Let_def split: option.splits)

text \<open>
  Both example documents have a field \<open>a\<close>, with 3 below 5; only the first has a field
  \<open>b\<close>.
\<close>

theorem compareByField_fails_iff_field_missing_witness:
  "Document_field example_field example_Document ''a'' = Some 3 \<and>
   Document_field example_field example_Document2 ''a'' = Some 5 \<and>
   Document_compareByField example_field example_compareTo ''a''
     example_Document example_Document2 = Inr (- 1) \<and>
   Document_field example_field example_Document2 ''b'' = None \<and>
   Document_compareByField example_field example_compareTo ''b''
     example_Document example_Document2 =
     Inl (AssertionFailure ''Trying to compare documents on fields that don't exist'')"
  using compareByField_fails_iff_field_missing
    [of example_field example_compareTo "''a''" example_Document example_Document2]
    compareByField_fails_iff_field_missing
    [of example_field example_compareTo "''b''" example_Document example_Document2]
  by (simp add: Document_field_def example_field_def example_compareTo_def
      example_Document_def example_Document2_def)

text \<open>
  C10. For every document \<open>d\<close> and path \<open>p\<close>: when \<open>d.field(p)\<close> is absent,
  \<open>d.fieldValue(p)\<close> is \<^verbatim>\<open>undefined\<close>; when a field is found, it is the result of
  \<^verbatim>\<open>value()\<close> on that field. So, \<^verbatim>\<open>value()\<close> of a field being a JSON-like value and
  never \<^verbatim>\<open>undefined\<close>, \<open>d.fieldValue(p)\<close> is \<^verbatim>\<open>undefined\<close> exactly when the field is
  absent.
\<close>

theorem fieldValue_undefined_iff_field_absent:
  "(Document_field fld d p = None \<longrightarrow> Document_fieldValue fld val d p = JsUndefined) \<and>
   (\<forall>f. Document_field fld d p = Some f \<longrightarrow> Document_fieldValue fld val d p = val f) \<and>
   ((\<forall>f. val f \<noteq> JsUndefined) \<longrightarrow>
      (Document_fieldValue fld val d p = JsUndefined) = (Document_field fld d p = None))"
  by (auto simp: Document_fieldValue_def split: option.splits)

theorem fieldValue_undefined_iff_field_absent_witness:
  "(\<forall>f. example_field_value f \<noteq> JsUndefined) \<and>
   Document_field example_field example_Document ''b'' = Some 7 \<and>
   Document_fieldValue example_field example_field_value example_Document ''b'' = JsValue 7 \<and>
   Document_field example_field example_Document ''c'' = None \<and>
   Document_fieldValue example_field example_field_value example_Document ''c'' = JsUndefined"
  using fieldValue_undefined_iff_field_absent
    [of example_field example_Document "''b''" example_field_value]
    fieldValue_undefined_iff_field_absent
    [of example_field example_Document "''c''" example_field_value]
  by (simp add: Document_field_def example_field_def example_field_value_def
      example_Document_def)

text \<open>
  C4, as the code has it. A \<^verbatim>\<open>NoDocument\<close> has no data payload: it is its key and its
  two versions. The class declares neither \<^verbatim>\<open>field\<close> nor \<^verbatim>\<open>value\<close>, so calling
  either on a \<^verbatim>\<open>NoDocument\<close> is a type error, for every path, and not an absent field
  or an empty value. On a \<^verbatim>\<open>Document\<close> the two calls are the projections
  \<^verbatim>\<open>data.field(path)\<close> and \<^verbatim>\<open>data.value()\<close>.
\<close>

theorem NoDocument_has_no_field_or_value:
  "call_field fld (IsNoDocument n) p = Inl (TypeError ''field is not a function'') \<and>
   call_value val (IsNoDocument n) = Inl (TypeError ''value is not a function'') \<and>
   n = \<lparr>key = key n, remoteVersion = remoteVersion n, commitVersion = commitVersion n\<rparr> \<and>
   call_field fld (IsDocument d) p = Inr (fld (data d) p) \<and>
   call_value val (IsDocument d) = Inr (val (data d))"
  by (simp add: call_field_def call_value_def Document_field_def Document_value_def)

text \<open>
  On \<open>example_NoDocument\<close>, \<^verbatim>\<open>field('a')\<close> does not return the absent field and
  \<^verbatim>\<open>value()\<close> does not return the empty body.
\<close>

theorem NoDocument_field_not_absent:
  "call_field example_field (IsNoDocument example_NoDocument) ''a'' \<noteq> Inr None \<and>
   call_value example_body_value (IsNoDocument example_NoDocument) \<noteq> Inr []"
  by (simp add: call_field_def call_value_def)

section \<open>The order of documents by key\<close>

lemma DocumentKey_comparator_le: "(DocumentKey_comparator a b \<le> 0) = (a \<le> b)"
  by (auto simp: DocumentKey_comparator_def)

lemma DocumentKey_comparator_less: "(DocumentKey_comparator a b < 0) = (a < b)"
  by (auto simp: DocumentKey_comparator_def)

lemma DocumentKey_comparator_eq: "(DocumentKey_comparator a b = 0) = (a = b)"
  by (auto simp: DocumentKey_comparator_def)

lemma DocumentKey_comparator_flip: "DocumentKey_comparator b a = - DocumentKey_comparator a b"
  by (auto simp: DocumentKey_comparator_def)

text \<open>
  C8. For all documents or \<^verbatim>\<open>NoDocument\<close>s \<open>d1\<close>, \<open>d2\<close>, \<open>compareByKey\<close> is the key
  comparator on their keys. The relation "compares at most zero" is a total order of
  the documents by key: reflexive, total, transitive, and antisymmetric up to the key
  (two documents are below each other exactly when they have the same key); swapping
  the arguments negates the result; the result is negative exactly when the first key
  is smaller and zero exactly when the keys are equal; and it depends on the two keys
  only: documents with the same keys, of either variant, compare the same.
\<close>

theorem compareByKey_total_order_on_keys:
  "MaybeDocument_compareByKey d1 d2 = DocumentKey_comparator (key d1) (key d2) \<and>
   MaybeDocument_compareByKey d1 d1 = 0 \<and>
   (MaybeDocument_compareByKey d1 d2 \<le> 0 \<or> MaybeDocument_compareByKey d2 d1 \<le> 0) \<and>
   (MaybeDocument_compareByKey d1 d2 \<le> 0 \<and> MaybeDocument_compareByKey d2 d3 \<le> 0 \<longrightarrow>
      MaybeDocument_compareByKey d1 d3 \<le> 0) \<and>
   ((MaybeDocument_compareByKey d1 d2 \<le> 0 \<and> MaybeDocument_compareByKey d2 d1 \<le> 0) =
      (key d1 = key d2)) \<and>
   MaybeDocument_compareByKey d2 d1 = - MaybeDocument_compareByKey d1 d2 \<and>
   (MaybeDocument_compareByKey d1 d2 < 0) = (key d1 < key d2) \<and>
   (MaybeDocument_compareByKey d1 d2 = 0) = (key d1 = key d2) \<and>
   (key e1 = key d1 \<and> key e2 = key d2 \<longrightarrow>
      MaybeDocument_compareByKey e1 e2 = MaybeDocument_compareByKey d1 d2)"
proof -
  have flip: "MaybeDocument_compareByKey d2 d1 = - MaybeDocument_compareByKey d1 d2"
    unfolding MaybeDocument_compareByKey_def by (rule DocumentKey_comparator_flip)
  have rest:
    "MaybeDocument_compareByKey d1 d1 = 0"
    "MaybeDocument_compareByKey d1 d2 \<le> 0 \<or> MaybeDocument_compareByKey d2 d1 \<le> 0"
    "MaybeDocument_compareByKey d1 d2 \<le> 0 \<and> MaybeDocument_compareByKey d2 d3 \<le> 0 \<longrightarrow>
       MaybeDocument_compareByKey d1 d3 \<le> 0"
    "(MaybeDocument_compareByKey d1 d2 \<le> 0 \<and> MaybeDocument_compareByKey d2 d1 \<le> 0) =
       (key d1 = key d2)"
    "(MaybeDocument_compareByKey d1 d2 < 0) = (key d1 < key d2)"
    "(MaybeDocument_compareByKey d1 d2 = 0) = (key d1 = key d2)"
    "key e1 = key d1 \<and> key e2 = key d2 \<longrightarrow>
       MaybeDocument_compareByKey e1 e2 = MaybeDocument_compareByKey d1 d2"
    unfolding MaybeDocument_compareByKey_def DocumentKey_comparator_le
      DocumentKey_comparator_less DocumentKey_comparator_eq
    by auto
  show ?thesis
    using flip rest by (simp add: MaybeDocument_compareByKey_def)
qed

text \<open>
  The document with key 1 is below the one with key 2, which is below a
  \<^verbatim>\<open>NoDocument\<close> with key 3; the \<^verbatim>\<open>NoDocument\<close> with key 1 compares to the second
  document as the first document does, and ties with the first document.
\<close>

theorem compareByKey_total_order_on_keys_witness:
  "MaybeDocument_compareByKey example_Document example_Document2 = - 1 \<and>
   MaybeDocument_compareByKey example_Document2 example_Document = 1 \<and>
   MaybeDocument_compareByKey example_Document2 (example_NoDocument\<lparr>key := 3\<rparr>) \<le> 0 \<and>
   MaybeDocument_compareByKey example_Document (example_NoDocument\<lparr>key := 3\<rparr>) \<le> 0 \<and>
   key example_NoDocument = key example_Document \<and>
   MaybeDocument_compareByKey example_NoDocument example_Document2 =
     MaybeDocument_compareByKey example_Document example_Document2 \<and>
   MaybeDocument_compareByKey example_Document example_NoDocument = 0"
proof -
  note order12 = compareByKey_total_order_on_keys
    [where ?d1.0 = example_Document and ?d2.0 = example_Document2
       and ?d3.0 = "example_NoDocument\<lparr>key := 3\<rparr>"
       and ?e1.0 = example_NoDocument and ?e2.0 = example_Document2]
  note order23 = compareByKey_total_order_on_keys
    [where ?d1.0 = example_Document2 and ?d2.0 = "example_NoDocument\<lparr>key := 3\<rparr>"
       and ?d3.0 = example_NoDocument
       and ?e1.0 = example_NoDocument and ?e2.0 = example_NoDocument]
  note order11 = compareByKey_total_order_on_keys
    [where ?d1.0 = example_Document and ?d2.0 = example_NoDocument
       and ?d3.0 = example_NoDocument
       and ?e1.0 = example_NoDocument and ?e2.0 = example_NoDocument]
  have keys:
    "key example_Document = 1" "key example_Document2 = 2" "key example_NoDocument = 1"
    "key (example_NoDocument\<lparr>key := 3\<rparr>) = 3"
    by (simp_all add: example_Document_def example_Document2_def example_NoDocument_def)
  have below12: "MaybeDocument_compareByKey example_Document example_Document2 = - 1"
    using order12 by (simp add: keys DocumentKey_comparator_def)
  have above21: "MaybeDocument_compareByKey example_Document2 example_Document = 1"
    using order12 below12 by simp
  have below23:
    "MaybeDocument_compareByKey example_Document2 (example_NoDocument\<lparr>key := 3\<rparr>) \<le> 0"
    using order23 by (simp add: keys DocumentKey_comparator_def)
  have below13:
    "MaybeDocument_compareByKey example_Document (example_NoDocument\<lparr>key := 3\<rparr>) \<le> 0"
    using order12 below12 below23 by simp
  have same:
    "MaybeDocument_compareByKey example_NoDocument example_Document2 =
       MaybeDocument_compareByKey example_Document example_Document2"
    using order12 by (simp add: keys)
  have tie: "MaybeDocument_compareByKey example_Document example_NoDocument = 0"
    using order11 by (simp add: keys)
  show ?thesis
    using below12 above21 below23 below13 same tie by (simp add: keys)
qed

section \<open>The query cache\<close>

lemmas wrapper_defs =
  runTransaction_def committed_def
  TestQueryCache_addQueryData_def TestQueryCache_updateQueryData_def
  TestQueryCache_getQueryCount_def TestQueryCache_removeQueryData_def
  TestQueryCache_getQueryData_def TestQueryCache_getLastRemoteSnapshotVersion_def
  TestQueryCache_allocateTargetId_def TestQueryCache_addMatchingKeys_def
  TestQueryCache_removeMatchingKeys_def TestQueryCache_getMatchingKeysForTargetId_def
  TestQueryCache_removeMatchingKeysForTargetId_def TestQueryCache_containsKey_def
  TestQueryCache_setTargetsMetadata_def

lemmas cache_defs =
  QueryCache_addQueryData_def QueryCache_updateQueryData_def
  QueryCache_getQueryCount_def QueryCache_removeQueryData_def
  QueryCache_getQueryData_def QueryCache_getLastRemoteSnapshotVersion_def
  QueryCache_allocateTargetId_def QueryCache_addMatchingKeys_def
  QueryCache_removeMatchingKeys_def QueryCache_getMatchingKeysForTargetId_def
  QueryCache_removeMatchingKeysForTargetId_def QueryCache_containsKey_def
  QueryCache_setTargetsMetadata_def

subsection \<open>Membership of a key\<close>

lemma containsKey_result:
  "TestQueryCache_containsKey k s =
     Inr ((\<exists>t \<in> set (trackedTargets s). k \<in> matchedKeys s t), s)"
  by (simp add: TestQueryCache_containsKey_def runTransaction_def QueryCache_containsKey_def
      list_ex_iff)

lemma trackedTargets_matchedKeys_update:
  "trackedTargets (s\<lparr>matchedKeys := m\<rparr>) = trackedTargets s"
  by (simp add: trackedTargets_def)

text \<open>
  C5. For every key \<open>k\<close>, \<open>containsKey(k)\<close> returns true exactly when \<open>k\<close> is in the
  matched set of a currently tracked target, the matched set of a target being what
  \<open>getMatchingKeysForTargetId\<close> returns for it. When \<open>t\<close> is the last target whose
  matched set contains \<open>k\<close> (no other tracked target has it), clearing the matched set
  of \<open>t\<close> succeeds, and \<open>containsKey(k)\<close> returns false afterwards.
\<close>

theorem containsKey_iff_tracked_target_matches:
  "TestQueryCache_containsKey k s =
     Inr ((\<exists>t \<in> set (trackedTargets s). k \<in> matchedKeys s t), s) \<and>
   QueryCache_getMatchingKeysForTargetId s t = Inr (matchedKeys s t, s) \<and>
   ((\<forall>u \<in> set (trackedTargets s). u \<noteq> t \<longrightarrow> k \<notin> matchedKeys s u) \<longrightarrow>
      (\<exists>s'. TestQueryCache_removeMatchingKeysForTargetId t s = Inr ((), s') \<and>
            TestQueryCache_containsKey k s' = Inr (False, s')))"
proof -
  have cleared:
    "TestQueryCache_removeMatchingKeysForTargetId t s =
       Inr ((), s\<lparr>matchedKeys := (matchedKeys s)(t := {})\<rparr>)"
    by (simp add: TestQueryCache_removeMatchingKeysForTargetId_def runTransaction_def
        QueryCache_removeMatchingKeysForTargetId_def)
  have after:
    "TestQueryCache_containsKey k (s\<lparr>matchedKeys := (matchedKeys s)(t := {})\<rparr>) =
       Inr (False, s\<lparr>matchedKeys := (matchedKeys s)(t := {})\<rparr>)"
    if "\<forall>u \<in> set (trackedTargets s). u \<noteq> t \<longrightarrow> k \<notin> matchedKeys s u"
    using that by (auto simp: containsKey_result trackedTargets_matchedKeys_update)
  show ?thesis
    using cleared after
    by (simp add: containsKey_result QueryCache_getMatchingKeysForTargetId_def)
qed

text \<open>
  In the example state the key 10 is matched by target 1 only: it is contained, and it
  is not after the matched set of target 1 is cleared. The key 13 is matched by no
  tracked target.
\<close>

theorem containsKey_iff_tracked_target_matches_witness:
  "trackedTargets example_State = [1, 2] \<and>
   10 \<in> matchedKeys example_State 1 \<and>
   10 \<notin> matchedKeys example_State 2 \<and>
   TestQueryCache_containsKey 10 example_State = Inr (True, example_State) \<and>
   TestQueryCache_containsKey 13 example_State = Inr (False, example_State) \<and>
   (\<exists>s'. TestQueryCache_removeMatchingKeysForTargetId 1 example_State = Inr ((), s') \<and>
         TestQueryCache_containsKey 10 s' = Inr (False, s'))"
  using containsKey_iff_tracked_target_matches [of 10 example_State 1]
    containsKey_iff_tracked_target_matches [of 13 example_State 1]
  by (simp add: trackedTargets_def example_State_def)

subsection \<open>Allocation of target ids\<close>

lemma perform_highestTargetId:
  "perform c s = (r, s') \<Longrightarrow>
     (case r of
        None \<Rightarrow> c \<noteq> AllocateTargetId \<and> highestTargetId s' = highestTargetId s
      | Some t \<Rightarrow> c = AllocateTargetId \<and> highestTargetId s < t \<and> highestTargetId s' = t)"
  by (cases c) (auto simp: wrapper_defs cache_defs Let_def split: if_splits sum.splits)

lemma allocatedIds_above:
  "list_all (\<lambda>t. highestTargetId s < t) (allocatedIds cs s)"
proof (induction cs arbitrary: s)
  case Nil
  show ?case by simp
next
  case (Cons c cs)
  obtain r s' where step: "perform c s = (r, s')"
    by (cases "perform c s")
  from Cons.IH [of s']
  have above: "list_all (\<lambda>t. highestTargetId s' < t) (allocatedIds cs s')" .
  show ?case
  proof (cases r)
    case None
    with perform_highestTargetId [OF step] above step show ?thesis by simp
  next
    case (Some t)
    with perform_highestTargetId [OF step]
    have "highestTargetId s < t" "highestTargetId s' = t"
      by simp_all
    with above step Some show ?thesis
      by (auto simp: list_all_iff)
  qed
qed

lemma allocatedIds_sorted: "sorted_wrt (<) (allocatedIds cs s)"
proof (induction cs arbitrary: s)
  case Nil
  show ?case by simp
next
  case (Cons c cs)
  obtain r s' where step: "perform c s = (r, s')"
    by (cases "perform c s")
  show ?case
  proof (cases r)
    case None
    with step Cons.IH [of s'] show ?thesis by simp
  next
    case (Some t)
    with perform_highestTargetId [OF step] have "highestTargetId s' = t" by simp
    with allocatedIds_above [of s' cs] have "\<forall>u \<in> set (allocatedIds cs s'). t < u"
      by (simp add: list_all_iff)
    with step Some Cons.IH [of s'] show ?thesis by simp
  qed
qed

lemma allocatedIds_length: "length (allocatedIds cs s) = count_list cs AllocateTargetId"
proof (induction cs arbitrary: s)
  case Nil
  show ?case by simp
next
  case (Cons c cs)
  obtain r s' where step: "perform c s = (r, s')"
    by (cases "perform c s")
  with perform_highestTargetId [OF step] Cons.IH [of s'] show ?case
    by (cases r) auto
qed

text \<open>
  C6. From every state and for every sequence of calls on the wrapper, whatever is
  added, removed or cleared between the allocations, the target ids that the calls of
  \<open>allocateTargetId\<close> return are strictly increasing in call order, hence without
  repeats; there is one id for each of the N allocations, and each is above the
  high-water mark the sequence started from. Each single call succeeds, returns an id
  above the high-water mark, and commits a state whose high-water mark is that id.
\<close>

theorem allocateTargetId_strictly_increasing:
  "sorted_wrt (<) (allocatedIds cs s) \<and>
   distinct (allocatedIds cs s) \<and>
   length (allocatedIds cs s) = count_list cs AllocateTargetId \<and>
   list_all (\<lambda>t. highestTargetId s < t) (allocatedIds cs s) \<and>
   (\<exists>t s'. TestQueryCache_allocateTargetId s = Inr (t, s') \<and>
           highestTargetId s < t \<and> highestTargetId s' = t)"
proof -
  have "distinct (allocatedIds cs s)"
    using allocatedIds_sorted [of cs s] by (simp add: strict_sorted_iff)
  moreover have "\<exists>t s'. TestQueryCache_allocateTargetId s = Inr (t, s') \<and>
           highestTargetId s < t \<and> highestTargetId s' = t"
    by (simp add: TestQueryCache_allocateTargetId_def runTransaction_def
        QueryCache_allocateTargetId_def Let_def)
  ultimately show ?thesis
    using allocatedIds_sorted allocatedIds_length allocatedIds_above by blast
qed

text \<open>
  The example sequence allocates an id, adds a target with it, removes and clears that
  target, allocates again, adds the target again and allocates a third time: the ids
  are 3, 4 and 5, and the high-water mark ends at 5.
\<close>

theorem allocateTargetId_strictly_increasing_witness:
  "allocatedIds example_calls example_State = [3, 4, 5] \<and>
   sorted_wrt (<) (allocatedIds example_calls example_State) \<and>
   distinct (allocatedIds example_calls example_State) \<and>
   count_list example_calls AllocateTargetId = 3 \<and>
   highestTargetId (finalState example_calls example_State) = 5"
proof -
  have ids: "allocatedIds example_calls example_State = [3, 4, 5]"
    by (simp add: example_calls_def example_State_def example_QueryData_def
        wrapper_defs cache_defs trackedTargets_def documentKeySet_def Let_def)
  have final: "highestTargetId (finalState example_calls example_State) = 5"
    by (simp add: example_calls_def example_State_def example_QueryData_def
        wrapper_defs cache_defs trackedTargets_def documentKeySet_def Let_def)
  show ?thesis
    using allocateTargetId_strictly_increasing [of example_calls example_State] ids final
    by simp
qed

subsection \<open>Adding, finding and removing a query\<close>

text \<open>
  C7. For every record \<open>q\<close> whose target id is not tracked yet, \<open>addQueryData(q)\<close>
  succeeds and \<open>getQueryData(q.query)\<close> then returns \<open>q\<close>; the lookup of any other
  query returns what it returned before, whatever the target ids of the records;
  \<open>removeQueryData(q)\<close> then succeeds, and \<open>getQueryData(q.query)\<close> returns absent
  after it.
\<close>

theorem addQueryData_getQueryData_roundtrip:
  assumes "targetId q \<notin> set (trackedTargets s)"
  shows "\<exists>s1 s2.
           TestQueryCache_addQueryData q s = Inr ((), s1) \<and>
           TestQueryCache_getQueryData (query q) s1 = Inr (Some q, s1) \<and>
           (\<forall>q'. q' \<noteq> query q \<longrightarrow>
              TestQueryCache_getQueryData q' s1 = Inr (map_of (queries s) q', s1)) \<and>
           TestQueryCache_removeQueryData q s1 = Inr ((), s2) \<and>
           TestQueryCache_getQueryData (query q) s2 = Inr (None, s2)"
  using assms
  by (simp add: TestQueryCache_addQueryData_def TestQueryCache_getQueryData_def
      TestQueryCache_removeQueryData_def runTransaction_def QueryCache_addQueryData_def
      QueryCache_getQueryData_def QueryCache_removeQueryData_def update_conv' delete_conv')

text \<open>
  The example record has the target id 3, which the example state does not track.
\<close>

theorem addQueryData_getQueryData_roundtrip_witness:
  "targetId example_QueryData \<notin> set (trackedTargets example_State) \<and>
   (\<exists>s1 s2.
      TestQueryCache_addQueryData example_QueryData example_State = Inr ((), s1) \<and>
      TestQueryCache_getQueryData (query example_QueryData) s1 =
        Inr (Some example_QueryData, s1) \<and>
      TestQueryCache_removeQueryData example_QueryData s1 = Inr ((), s2) \<and>
      TestQueryCache_getQueryData (query example_QueryData) s2 = Inr (None, s2))"
proof -
  have untracked: "targetId example_QueryData \<notin> set (trackedTargets example_State)"
    by (simp add: example_QueryData_def example_State_def trackedTargets_def)
  from addQueryData_getQueryData_roundtrip [OF untracked] untracked
  show ?thesis by blast
qed

end
